theory Spec2Isabelle
  imports Complex_Main "HOL-Library.Word"
begin

section \<open>Dynamic values and messages\<close>

text \<open>
  A Go value of type \<^verbatim>\<open>any\<close>, as far as the runtime inspects it. A JSON number
  decodes to \<^verbatim>\<open>float64\<close>; \<open>VFloat64\<close> carries the finite value it denotes.
  \<open>VInt\<close> is a Go \<^verbatim>\<open>int\<close>, which only a locally built parameter map contains;
  \<open>VStruct\<close> is a value of a named struct type, with its fields.
\<close>

datatype any =
    VNil
  | VBool bool
  | VFloat64 real
  | VInt int
  | VString string
  | VSlice "any list"
  | VMap "(string \<times> any) list"
  | VStruct string "(string \<times> any) list"

type_synonym MessageType = string

definition AuthOKType :: MessageType where
  "AuthOKType = ''auth_ok''"

definition RequestType :: MessageType where
  "RequestType = ''request''"

definition ResponseType :: MessageType where
  "ResponseType = ''response''"

definition AuthRequestType :: MessageType where
  "AuthRequestType = ''auth_request''"

definition AuthFailType :: MessageType where
  "AuthFailType = ''auth_fail''"

record RPCMessage =
  Type :: MessageType
  ID :: string
  Method :: string
  Params :: "string \<rightharpoonup> any"
  Result :: any
  Error :: "string option"
  ErrorCode :: int

record NegotiationMessage =
  NegType :: MessageType
  ClientID :: string
  AuthCode :: string
  UseCompression :: bool

section \<open>Context: parameter accessors\<close>

text \<open>
  The handler-facing context. The connection pointer is not a field of the model: the
  functions that write through it take the connection as an argument. The struct of
  \<^verbatim>\<open>context.go\<close> names the request id \<^verbatim>\<open>requestID\<close> and has no peer id.
\<close>

record Context =
  ctx_clientID :: string
  ctx_id :: string
  params :: "string \<rightharpoonup> any"

text \<open>
  Go's conversion \<^verbatim>\<open>int(v)\<close> of a \<^verbatim>\<open>float64\<close> discards the fraction. When the
  result does not fit the 64-bit \<^verbatim>\<open>int\<close> the value is implementation-specific: the
  parameter \<open>impl\<close> stands for what the platform returns then.
\<close>

definition trunc :: "real \<Rightarrow> int" where
  "trunc v = (if v < 0 then - \<lfloor>- v\<rfloor> else \<lfloor>v\<rfloor>)"

definition int_of_float64 :: "(real \<Rightarrow> int) \<Rightarrow> real \<Rightarrow> int" where
  "int_of_float64 impl v =
     (if - (2 ^ 63) \<le> trunc v \<and> trunc v < 2 ^ 63 then trunc v else impl v)"

text \<open>
  \<^verbatim>\<open>GetParamInt\<close> of \<^verbatim>\<open>context.go\<close>: a type switch over \<^verbatim>\<open>float64\<close>, \<^verbatim>\<open>int\<close> and
  \<^verbatim>\<open>string\<close>. \<^verbatim>\<open>strconv.Atoi\<close> belongs to the standard library and is the
  parameter \<open>Atoi\<close> (\<open>None\<close> when it returns an error).
\<close>

definition GetParamInt ::
  "(string \<Rightarrow> int option) \<Rightarrow> (real \<Rightarrow> int) \<Rightarrow> Context \<Rightarrow> string \<Rightarrow> int \<Rightarrow> int" where
  "GetParamInt Atoi impl ctx name def =
     (case params ctx name of
        Some val \<Rightarrow>
          (case val of
             VFloat64 v \<Rightarrow> int_of_float64 impl v
           | VInt v \<Rightarrow> v
           | VString v \<Rightarrow> (case Atoi v of Some i \<Rightarrow> i | None \<Rightarrow> def)
           | _ \<Rightarrow> def)
      | None \<Rightarrow> def)"

text \<open>
  \<^verbatim>\<open>GetParamInt\<close> of the context that carries the peer id (the one the connection's
  read loop builds): only a \<^verbatim>\<open>float64\<close> is converted.
\<close>

definition GetParamInt_peer :: "(real \<Rightarrow> int) \<Rightarrow> Context \<Rightarrow> string \<Rightarrow> int \<Rightarrow> int" where
  "GetParamInt_peer impl ctx name def =
     (case params ctx name of
        None \<Rightarrow> def
      | Some val \<Rightarrow>
          (case val of
             VFloat64 f \<Rightarrow> int_of_float64 impl f
           | _ \<Rightarrow> def))"

section \<open>Reconnect backoff (auto-client)\<close>

text \<open>
  \<^verbatim>\<open>time.Duration\<close> is a signed 64-bit count of nanoseconds and \<^verbatim>\<open>attempt\<close> a
  64-bit \<^verbatim>\<open>int\<close>: both are \<open>64 word\<close>, read through \<open>sint\<close>. Go's \<^verbatim>\<open><<\<close> discards
  the bits shifted out (\<open>push_bit\<close> on words does the same, and gives 0 for a count of
  64 or more) and panics on a negative count, which is the result \<open>None\<close>.
\<close>

type_synonym Duration = "64 word"

definition Second :: Duration where
  "Second = 1000000000"

definition Minute :: Duration where
  "Minute = 60 * Second"

definition backoffDuration :: "64 word \<Rightarrow> Duration option" where
  "backoffDuration attempt =
     (let base = Second * 2;
          n = attempt - 1
      in if sint n < 0 then None
         else let delay = push_bit (unat n) base
              in if sint (3 * Minute) < sint delay then Some (3 * Minute) else Some delay)"

text \<open>
  The delay the claim gives for attempt \<open>n\<close>, in nanoseconds:
  \<open>min (2 ^ (n - 1) * 2s) 3min\<close>.
\<close>

definition backoff_spec :: "nat \<Rightarrow> int" where
  "backoff_spec n = min (2 ^ (n - 1) * 2000000000) 180000000000"

section \<open>Handler registry\<close>

text \<open>
  A handler is a function of the embedder, known to the runtime only by its identity;
  \<open>PingHandler\<close> is the server's built-in \<^verbatim>\<open>handlePing\<close>. The registry is the
  map from method names to handlers.
\<close>

datatype HandlerFunc = UserHandler nat | PingHandler

type_synonym HandlerRegistry = "string \<rightharpoonup> HandlerFunc"

definition NewHandlerRegistry :: HandlerRegistry where
  "NewHandlerRegistry = Map.empty"

definition Register :: "string \<Rightarrow> HandlerFunc \<Rightarrow> HandlerRegistry \<Rightarrow> HandlerRegistry" where
  "Register method fn hr = hr(method \<mapsto> fn)"

definition Get :: "HandlerRegistry \<Rightarrow> string \<Rightarrow> HandlerFunc option" where
  "Get hr method = hr method"

section \<open>Errors\<close>

datatype error =
    TransportError
  | ResponseError int string
  | AsyncResponseError int string
  | TimeoutError "64 word"
  | CallCancelled
  | NotConnected
  | ClientNotConnected string
  | AuthenticationFailed
  | ResultNil
  | ResultNotPointer
  | DecodeFailed
  | EncodeFallback

section \<open>Connection\<close>

text \<open>
  The connection, with the Go objects it refers to.
  \<^item> The transport \<^verbatim>\<open>Conn\<close>: \<open>connOK\<close> says that it accepts writes, \<open>wire\<close> is the
    sequence of frames written to it.
  \<^item> \<^verbatim>\<open>Enc\<close> and \<^verbatim>\<open>gzWriter\<close> are assigned together (\<^verbatim>\<open>EnableCompression\<close>):
    \<open>gzWriter\<close> is \<open>None\<close> for nil, else the frames encoded into the gzip writer
    and not flushed yet, and \<^verbatim>\<open>Enc\<close> encodes into the gzip writer when there is one.
  \<^item> \<open>Dec\<close> is \<open>None\<close> for a nil decoder, else what the decoder reads from.
  \<^item> \<open>pending\<close> maps a correlation id to a channel; \<open>chans\<close> holds the buffer of
    every channel made by \<^verbatim>\<open>make(chan RPCMessage, 1)\<close>, \<open>nextChan\<close> is the next
    channel to be made.
  \<^item> \<open>spawned\<close> lists the handler goroutines started by \<^verbatim>\<open>go fn(ctx)\<close>.
\<close>

type_synonym chan = nat

datatype stream = Plain | Gzip

record Connection =
  connOK :: bool
  wire :: "RPCMessage list"
  Dec :: "stream option"
  useCompression :: bool
  gzWriter :: "RPCMessage list option"
  gzReader :: bool
  pending :: "string \<rightharpoonup> chan"
  handlers :: HandlerRegistry
  clientID :: string
  chans :: "chan \<Rightarrow> RPCMessage list"
  nextChan :: chan
  spawned :: "(HandlerFunc \<times> Context) list"

definition NewConnection :: Connection where
  "NewConnection =
     \<lparr>connOK = True, wire = [], Dec = Some Plain, useCompression = False, gzWriter = None,
      gzReader = False, pending = Map.empty, handlers = NewHandlerRegistry, clientID = [],
      chans = (\<lambda>_. []), nextChan = 0, spawned = []\<rparr>"

definition EnableCompression :: "Connection \<Rightarrow> Connection" where
  "EnableCompression c =
     (if useCompression c then c
      else c\<lparr>gzWriter := Some [], useCompression := True\<rparr>)"

text \<open>
  \<^verbatim>\<open>Send\<close>: encode, then flush the gzip writer when compression is on. Writing to a
  transport that does not accept writes is the error; the error of \<^verbatim>\<open>Encode\<close> comes
  first, as in the source.
\<close>

definition Encode :: "RPCMessage \<Rightarrow> Connection \<Rightarrow> Connection \<times> error option" where
  "Encode msg c =
     (case gzWriter c of
        None \<Rightarrow> if connOK c then (c\<lparr>wire := wire c @ [msg]\<rparr>, None) else (c, Some TransportError)
      | Some buf \<Rightarrow> (c\<lparr>gzWriter := Some (buf @ [msg])\<rparr>, None))"

definition Flush :: "Connection \<Rightarrow> Connection \<times> error option" where
  "Flush c =
     (case gzWriter c of
        None \<Rightarrow> (c, None)
      | Some buf \<Rightarrow>
          if connOK c then (c\<lparr>wire := wire c @ buf, gzWriter := Some []\<rparr>, None)
          else (c, Some TransportError))"

definition Send :: "RPCMessage \<Rightarrow> Connection \<Rightarrow> Connection \<times> error option" where
  "Send msg c =
     (case Encode msg c of
        (c1, Some err) \<Rightarrow> (c1, Some err)
      | (c1, None) \<Rightarrow>
          if useCompression c1 \<and> gzWriter c1 \<noteq> None then Flush c1 else (c1, None))"

text \<open>\<^verbatim>\<open>WriteResponse\<close> and \<^verbatim>\<open>WriteError\<close> discard the error of \<^verbatim>\<open>Send\<close>.\<close>

definition WriteResponse :: "any \<Rightarrow> Context \<Rightarrow> Connection \<Rightarrow> Connection" where
  "WriteResponse result ctx c =
     fst (Send \<lparr>Type = ResponseType, ID = ctx_id ctx, Method = [], Params = Map.empty,
                Result = result, Error = None, ErrorCode = 0\<rparr> c)"

definition WriteError :: "int \<Rightarrow> string \<Rightarrow> Context \<Rightarrow> Connection \<Rightarrow> Connection" where
  "WriteError code message ctx c =
     fst (Send \<lparr>Type = ResponseType, ID = ctx_id ctx, Method = [], Params = Map.empty,
                Result = VNil, Error = Some message, ErrorCode = code\<rparr> c)"

text \<open>
  \<^verbatim>\<open>handleMessage\<close>. The channel send \<^verbatim>\<open>ch <- msg\<close> blocks while the buffer (of
  capacity 1) is full: the result is \<open>None\<close> then. Log lines are not modelled.
\<close>

definition handleMessage :: "RPCMessage \<Rightarrow> Connection \<Rightarrow> Connection option" where
  "handleMessage msg c =
     (if Type msg = ResponseType then
        (case pending c (ID msg) of
           Some ch \<Rightarrow>
             if length (chans c ch) < 1
             then Some (c\<lparr>chans := (chans c)(ch := chans c ch @ [msg]),
                          pending := (pending c)(ID msg := None)\<rparr>)
             else None
         | None \<Rightarrow> Some c)
      else if Type msg = RequestType then
        (let ctx = \<lparr>ctx_clientID = clientID c, ctx_id = ID msg, params = Params msg\<rparr>
         in case Get (handlers c) (Method msg) of
              Some fn \<Rightarrow> Some (c\<lparr>spawned := spawned c @ [(fn, ctx)]\<rparr>)
            | None \<Rightarrow> Some (WriteError 404 ''method not found'' ctx c))
      else Some c)"

definition connClosed :: "Connection \<Rightarrow> Connection" where
  "connClosed c = c"

text \<open>
  \<^verbatim>\<open>readLoop\<close> over what the decoder yields: a frame or a decode error, the end of the
  input being the decode error \<^verbatim>\<open>io.EOF\<close>. \<open>gz\<close> says whether \<^verbatim>\<open>gzip.NewReader\<close>
  accepts the header it reads. The result is the connection when the loop has
  terminated (after the deferred \<^verbatim>\<open>connClosed\<close>), \<open>None\<close> when it blocks for ever.
\<close>

datatype decoded = DecodeErr | Frame RPCMessage

definition initReader :: "bool \<Rightarrow> Connection \<Rightarrow> Connection option" where
  "initReader gz c =
     (if useCompression c \<and> \<not> gzReader c then
        (if gz then Some (c\<lparr>gzReader := True, Dec := Some Gzip\<rparr>) else None)
      else Some c)"

fun readLoop :: "bool \<Rightarrow> decoded list \<Rightarrow> Connection \<Rightarrow> Connection option" where
  "readLoop gz [] c =
     (case initReader gz c of
        None \<Rightarrow> Some (connClosed c)
      | Some c1 \<Rightarrow> Some (connClosed c1))"
| "readLoop gz (d # ds) c =
     (case initReader gz c of
        None \<Rightarrow> Some (connClosed c)
      | Some c1 \<Rightarrow>
          (case d of
             DecodeErr \<Rightarrow> Some (connClosed c1)
           | Frame msg \<Rightarrow>
               (case handleMessage msg c1 of
                  None \<Rightarrow> None
                | Some c2 \<Rightarrow> readLoop gz ds c2)))"


section \<open>Call primitives\<close>

text \<open>
  The correlation id comes from \<^verbatim>\<open>uuid.NewString()\<close> and is an argument of the model.
  The pieces follow the source in order: registration of a fresh channel under the id,
  the send with its failure path, then the \<^verbatim>\<open>select\<close>.
\<close>

definition request :: "string \<Rightarrow> string \<Rightarrow> (string \<rightharpoonup> any) \<Rightarrow> RPCMessage" where
  "request id' method ps =
     \<lparr>Type = RequestType, ID = id', Method = method, Params = ps, Result = VNil,
      Error = None, ErrorCode = 0\<rparr>"

definition Call_register :: "string \<Rightarrow> Connection \<Rightarrow> Connection \<times> chan" where
  "Call_register id' c =
     (let ch = nextChan c
      in (c\<lparr>nextChan := Suc ch, chans := (chans c)(ch := []),
            pending := (pending c)(id' \<mapsto> ch)\<rparr>, ch))"

definition removePending :: "string \<Rightarrow> Connection \<Rightarrow> Connection" where
  "removePending id' c = c\<lparr>pending := (pending c)(id' := None)\<rparr>"

definition Call_send ::
  "string \<Rightarrow> string \<Rightarrow> (string \<rightharpoonup> any) \<Rightarrow> Connection \<Rightarrow> Connection \<times> error option" where
  "Call_send id' method ps c =
     (case Send (request id' method ps) c of
        (c1, Some err) \<Rightarrow> (removePending id' c1, Some err)
      | (c1, None) \<Rightarrow> (c1, None))"

text \<open>What a blocking call returns for the message it has received.\<close>

definition Call_result :: "RPCMessage \<Rightarrow> error + any" where
  "Call_result msg =
     (case Error msg of
        Some e \<Rightarrow> Inl (ResponseError (ErrorCode msg) e)
      | None \<Rightarrow> Inr (Result msg))"

definition Call_timeout :: "Duration \<Rightarrow> string \<Rightarrow> Connection \<Rightarrow> Connection \<times> (error + any)" where
  "Call_timeout timeout id' c = (removePending id' c, Inl (TimeoutError timeout))"

text \<open>
  The \<^verbatim>\<open>select\<close> of \<^verbatim>\<open>Call\<close>, once nothing more arrives: the receive case needs a
  message in the channel; \<open>timerFirst\<close> says that the timer case is taken although a
  message is there. With an empty channel the caller waits until the timer fires.
\<close>

definition Call_select ::
  "bool \<Rightarrow> Duration \<Rightarrow> string \<Rightarrow> chan \<Rightarrow> Connection \<Rightarrow> Connection \<times> (error + any)" where
  "Call_select timerFirst timeout id' ch c =
     (case chans c ch of
        [] \<Rightarrow> Call_timeout timeout id' c
      | msg # rest \<Rightarrow>
          if timerFirst then Call_timeout timeout id' c
          else (c\<lparr>chans := (chans c)(ch := rest)\<rparr>, Call_result msg))"

text \<open>The iterations of the read loop that run while a caller waits.\<close>

fun handleMessages :: "RPCMessage list \<Rightarrow> Connection \<Rightarrow> Connection option" where
  "handleMessages [] c = Some c"
| "handleMessages (msg # msgs) c =
     (case handleMessage msg c of
        None \<Rightarrow> None
      | Some c1 \<Rightarrow> handleMessages msgs c1)"

text \<open>
  \<^verbatim>\<open>Call\<close>, with the frames \<open>arrivals\<close> handled by the read loop between the send and
  the \<^verbatim>\<open>select\<close>. \<open>None\<close>: the read loop is blocked.
\<close>

definition Call ::
  "RPCMessage list \<Rightarrow> bool \<Rightarrow> string \<Rightarrow> string \<Rightarrow> (string \<rightharpoonup> any) \<Rightarrow> Duration \<Rightarrow> Connection
     \<Rightarrow> (Connection \<times> (error + any)) option" where
  "Call arrivals timerFirst id' method ps timeout c =
     (case Call_register id' c of
        (c1, ch) \<Rightarrow>
          (case Call_send id' method ps c1 of
             (c2, Some err) \<Rightarrow> Some (c2, Inl err)
           | (c2, None) \<Rightarrow>
               (case handleMessages arrivals c2 of
                  None \<Rightarrow> None
                | Some c3 \<Rightarrow> Some (Call_select timerFirst timeout id' ch c3))))"

text \<open>
  \<^verbatim>\<open>CallAsync\<close>. The handle it returns carries the id and the cancel channel
  (\<open>cancelClosed\<close>: the channel is closed). \<open>cb\<close> says that the callback is not nil;
  the last component of the result is what the callback is called with. The waiter
  removes the pending entry in a deferred function, after the callback: \<open>late\<close> are
  the frames the read loop handles between the two.
\<close>

record CallContext =
  CallID :: string
  cancelClosed :: bool

definition Cancel :: "CallContext \<Rightarrow> CallContext" where
  "Cancel cc = (if cancelClosed cc then cc else cc\<lparr>cancelClosed := True\<rparr>)"

datatype select_case = CaseInbox | CaseTimer | CaseCancel

definition Async_result :: "RPCMessage \<Rightarrow> error + any" where
  "Async_result msg =
     (case Error msg of
        Some e \<Rightarrow> Inl (AsyncResponseError (ErrorCode msg) e)
      | None \<Rightarrow> Inr (Result msg))"

definition Async_select ::
  "select_case \<Rightarrow> Duration \<Rightarrow> chan \<Rightarrow> Connection \<Rightarrow> Connection \<times> (error + any)" where
  "Async_select sc timeout ch c =
     (case sc of
        CaseInbox \<Rightarrow>
          (case chans c ch of
             [] \<Rightarrow> (c, Inl (TimeoutError timeout))
           | msg # rest \<Rightarrow> (c\<lparr>chans := (chans c)(ch := rest)\<rparr>, Async_result msg))
      | CaseTimer \<Rightarrow> (c, Inl (TimeoutError timeout))
      | CaseCancel \<Rightarrow> (c, Inl CallCancelled))"

definition CallAsync ::
  "RPCMessage list \<Rightarrow> select_case \<Rightarrow> RPCMessage list \<Rightarrow> string \<Rightarrow> string \<Rightarrow> (string \<rightharpoonup> any) \<Rightarrow>
     Duration \<Rightarrow> bool \<Rightarrow> Connection \<Rightarrow>
     (Connection \<times> CallContext option \<times> (error + any) option) option" where
  "CallAsync arrivals sc late id' method ps timeout cb c =
     (case Call_register id' c of
        (c1, ch) \<Rightarrow>
          (case Call_send id' method ps c1 of
             (c2, Some err) \<Rightarrow> Some (c2, None, if cb then Some (Inl err) else None)
           | (c2, None) \<Rightarrow>
               (case handleMessages arrivals c2 of
                  None \<Rightarrow> None
                | Some c3 \<Rightarrow>
                    (case Async_select sc timeout ch c3 of
                       (c4, r) \<Rightarrow>
                         (case handleMessages late c4 of
                            None \<Rightarrow> None
                          | Some c5 \<Rightarrow>
                              Some (removePending id' c5,
                                    Some \<lparr>CallID = id', cancelClosed = (sc = CaseCancel)\<rparr>,
                                    if cb then Some r else None))))))"

section \<open>Result adapter\<close>

text \<open>
  \<^verbatim>\<open>decodeInto\<close> inspects its arguments by reflection. \<open>gotype\<close> are the runtime types
  it can meet, \<open>typeOf\<close> is \<^verbatim>\<open>reflect.TypeOf\<close> (\<open>None\<close> for the nil interface). The
  destination is the nil interface, a value that is not a pointer, a nil pointer, or a
  pointer to a variable of some type with its current content.
\<close>

datatype gotype =
    TBool | TFloat64 | TInt | TString | TSliceAny | TMapStringAny | TInterface
  | TNamed string

fun typeOf :: "any \<Rightarrow> gotype option" where
  "typeOf VNil = None"
| "typeOf (VBool _) = Some TBool"
| "typeOf (VFloat64 _) = Some TFloat64"
| "typeOf (VInt _) = Some TInt"
| "typeOf (VString _) = Some TString"
| "typeOf (VSlice _) = Some TSliceAny"
| "typeOf (VMap _) = Some TMapStringAny"
| "typeOf (VStruct n _) = Some (TNamed n)"

datatype dest =
    DestNil
  | DestValue gotype
  | DestNilPtr gotype
  | DestPtr gotype any

text \<open>
  The decoders of \<^verbatim>\<open>mapstructure\<close> and \<^verbatim>\<open>encoding/json\<close> are libraries: they are the
  fields of \<open>libs\<close>. Each takes the type and the current content of the variable it
  decodes into and gives an error or the new content.
\<close>

record DecoderConfig =
  TagName :: string
  WeaklyTypedInput :: bool

record libs =
  NewDecoder :: "DecoderConfig \<Rightarrow> gotype \<Rightarrow> error option"
  Decode :: "DecoderConfig \<Rightarrow> (string \<times> any) list \<Rightarrow> gotype \<Rightarrow> any \<Rightarrow> error + any"
  Marshal :: "any \<Rightarrow> error + string"
  Unmarshal :: "string \<Rightarrow> gotype \<Rightarrow> any \<Rightarrow> error + any"

definition decodeInto :: "libs \<Rightarrow> dest \<Rightarrow> any \<Rightarrow> error + any" where
  "decodeInto lib result src =
     (case result of
        DestNil \<Rightarrow> Inl ResultNil
      | DestValue t \<Rightarrow> Inl ResultNotPointer
      | DestNilPtr t \<Rightarrow> Inl ResultNotPointer
      | DestPtr t cur \<Rightarrow>
          if typeOf src = Some t then Inr src
          else
            (case src of
               VMap m \<Rightarrow>
                 (let cfg = \<lparr>TagName = ''json'', WeaklyTypedInput = True\<rparr>
                  in case NewDecoder lib cfg t of
                       Some err \<Rightarrow> Inl err
                     | None \<Rightarrow> Decode lib cfg m t cur)
             | _ \<Rightarrow>
                 (case Marshal lib src of
                    Inl err \<Rightarrow> Inl EncodeFallback
                  | Inr data \<Rightarrow> Unmarshal lib data t cur)))"

text \<open>\<^verbatim>\<open>CallWithResult\<close>: the blocking call, then the adapter.\<close>

definition CallWithResult ::
  "libs \<Rightarrow> RPCMessage list \<Rightarrow> bool \<Rightarrow> string \<Rightarrow> string \<Rightarrow> (string \<rightharpoonup> any) \<Rightarrow> Duration \<Rightarrow> dest \<Rightarrow>
     Connection \<Rightarrow> (Connection \<times> (error + any)) option" where
  "CallWithResult lib arrivals timerFirst id' method ps timeout resultPtr c =
     (case Call arrivals timerFirst id' method ps timeout c of
        None \<Rightarrow> None
      | Some (c1, Inl err) \<Rightarrow> Some (c1, Inl err)
      | Some (c1, Inr res) \<Rightarrow> Some (c1, decodeInto lib resultPtr res))"


section \<open>Server\<close>

text \<open>
  An instant is a number of nanoseconds. \<^verbatim>\<open>time.Since(t)\<close>, taken at the instant
  \<open>now\<close>, is the difference as a \<^verbatim>\<open>Duration\<close>, saturated at the ends of the 64-bit
  range as \<^verbatim>\<open>Time.Sub\<close> does.
\<close>

type_synonym Time = int

definition Since :: "Time \<Rightarrow> Time \<Rightarrow> Duration" where
  "Since now t = word_of_int (max (- (2 ^ 63)) (min (2 ^ 63 - 1) (now - t)))"

definition DefaultHeartbeatTimeout :: Duration where
  "DefaultHeartbeatTimeout = 40 * Second"

text \<open>
  The server with the heartbeat. \<open>clients\<close> holds the connection registered under a
  client id, as it was when it was registered.
\<close>

record Server =
  authFunc :: "string \<Rightarrow> string \<Rightarrow> bool"
  srv_handlers :: HandlerRegistry
  clients :: "string \<rightharpoonup> Connection"
  lastPing :: "string \<rightharpoonup> Time"

definition NewServer :: "(string \<Rightarrow> string \<Rightarrow> bool) \<Rightarrow> Server" where
  "NewServer f =
     \<lparr>authFunc = f, srv_handlers = Register ''Ping'' PingHandler NewHandlerRegistry,
      clients = Map.empty, lastPing = Map.empty\<rparr>"

text \<open>
  What the transport does during the handshake of \<^verbatim>\<open>ServeConn\<close>: the negotiation
  frame received (\<open>None\<close> when \<^verbatim>\<open>ReceiveNegotiation\<close> returns an error) and whether
  \<^verbatim>\<open>SendNegotiation\<close> of the \<^verbatim>\<open>AuthOK\<close> frame succeeds.
\<close>

record handshake =
  received :: "NegotiationMessage option"
  sendOK :: bool

text \<open>
  \<^verbatim>\<open>ServeConn\<close> up to the start of the read loop, at the instant \<open>now\<close>. The second
  component is the connection whose read loop runs, \<open>None\<close> when the transport was
  closed.
\<close>

definition ServeConn :: "handshake \<Rightarrow> Time \<Rightarrow> Server \<Rightarrow> Server \<times> Connection option" where
  "ServeConn hs now s =
     (let c = NewConnection
      in case received hs of
           None \<Rightarrow> (s, None)
         | Some negMsg \<Rightarrow>
             if NegType negMsg \<noteq> AuthRequestType then (s, None)
             else if \<not> authFunc s (ClientID negMsg) (AuthCode negMsg) then (s, None)
             else
               (let c1 = c\<lparr>clientID := ClientID negMsg\<rparr>;
                    s1 = s\<lparr>lastPing := (lastPing s)(ClientID negMsg \<mapsto> now)\<rparr>
                in if \<not> sendOK hs then (s1, None)
                   else
                     (let c2 = (if UseCompression negMsg then EnableCompression c1 else c1);
                          c3 = c2\<lparr>handlers := srv_handlers s1\<rparr>;
                          s2 = s1\<lparr>clients := (clients s1)(ClientID negMsg \<mapsto> c3)\<rparr>
                      in (s2, Some c3))))"

text \<open>
  The cleanup goroutine of \<^verbatim>\<open>ServeConn\<close> polls \<^verbatim>\<open>c.Dec == nil\<close> every second and
  removes the client once that holds: \<open>None\<close> while it keeps polling.
\<close>

definition ServeConn_cleanup :: "Connection \<Rightarrow> string \<Rightarrow> Server \<Rightarrow> Server option" where
  "ServeConn_cleanup c cid s =
     (if Dec c = None
      then Some (s\<lparr>clients := (clients s)(cid := None), lastPing := (lastPing s)(cid := None)\<rparr>)
      else None)"

definition handlePing :: "Context \<Rightarrow> Time \<Rightarrow> Connection \<Rightarrow> Server \<Rightarrow> Server \<times> Connection" where
  "handlePing ctx now c s =
     (s\<lparr>lastPing := (lastPing s)(ctx_clientID ctx \<mapsto> now)\<rparr>,
      WriteResponse (VString ''pong'') ctx c)"

definition GetClientByID :: "Time \<Rightarrow> string \<Rightarrow> Server \<Rightarrow> Server \<times> Connection option" where
  "GetClientByID now cid s =
     (case clients s cid of
        None \<Rightarrow> (s, None)
      | Some conn \<Rightarrow>
          (case lastPing s cid of
             None \<Rightarrow>
               (s\<lparr>clients := (clients s)(cid := None), lastPing := (lastPing s)(cid := None)\<rparr>,
                None)
           | Some lp \<Rightarrow>
               if sint DefaultHeartbeatTimeout < sint (Since now lp)
               then (s\<lparr>clients := (clients s)(cid := None),
                        lastPing := (lastPing s)(cid := None)\<rparr>, None)
               else (s, Some conn)))"

section \<open>Auto-client\<close>

text \<open>
  The auto-client. \<open>activeConn\<close> is the atomic slot (\<open>None\<close> until the first
  \<^verbatim>\<open>Store\<close>); \<open>onReady\<close> says that the callback is not nil and \<open>readyCalls\<close> lists
  the connections it has been called with.
\<close>

record AutoClient =
  ac_clientID :: string
  authCode :: string
  ac_useCompression :: bool
  onReady :: bool
  readyCalls :: "Connection list"
  ac_handlers :: HandlerRegistry
  activeConn :: "Connection option"

definition NewAutoClient :: "string \<Rightarrow> string \<Rightarrow> bool \<Rightarrow> bool \<Rightarrow> AutoClient" where
  "NewAutoClient cid code compress ready =
     \<lparr>ac_clientID = cid, authCode = code, ac_useCompression = compress, onReady = ready,
      readyCalls = [], ac_handlers = NewHandlerRegistry, activeConn = None\<rparr>"

definition RegisterHandler :: "string \<Rightarrow> HandlerFunc \<Rightarrow> AutoClient \<Rightarrow> AutoClient" where
  "RegisterHandler method fn ac = ac\<lparr>ac_handlers := Register method fn (ac_handlers ac)\<rparr>"

text \<open>
  What the network does during one connection attempt: whether the dial succeeds,
  whether the negotiation frame can be sent, and the answer received.
\<close>

record dial =
  dialOK :: bool
  negSendOK :: bool
  negReceived :: "NegotiationMessage option"

definition connectOnce :: "dial \<Rightarrow> AutoClient \<Rightarrow> AutoClient \<times> error option" where
  "connectOnce d ac =
     (if \<not> dialOK d then (ac, Some TransportError)
      else
        (let c = NewConnection
         in if \<not> negSendOK d then (ac, Some TransportError)
            else
              (case negReceived d of
                 None \<Rightarrow> (ac, Some TransportError)
               | Some resp \<Rightarrow>
                   if NegType resp \<noteq> AuthOKType then (ac, Some AuthenticationFailed)
                   else
                     (let c1 = (if UseCompression resp then EnableCompression c else c);
                          c2 = c1\<lparr>handlers := ac_handlers ac\<rparr>;
                          ac1 = ac\<lparr>activeConn := Some c2\<rparr>
                      in (if onReady ac1 then ac1\<lparr>readyCalls := readyCalls ac1 @ [c2]\<rparr> else ac1,
                          None)))))"

text \<open>
  The reconnect loop, over the outcomes of its successive connection attempts. The stop
  channel is never closed, so every iteration takes the default case. The result is the
  client and the delays slept, \<open>None\<close> when \<^verbatim>\<open>backoffDuration\<close> panics.
\<close>

fun loop :: "dial list \<Rightarrow> 64 word \<Rightarrow> AutoClient \<Rightarrow> (AutoClient \<times> Duration list) option" where
  "loop [] attempt ac = Some (ac, [])"
| "loop (d # ds) attempt ac =
     (case connectOnce d ac of
        (ac1, Some err) \<Rightarrow>
          (case backoffDuration attempt of
             None \<Rightarrow> None
           | Some delay \<Rightarrow>
               (case loop ds (attempt + 1) ac1 of
                  None \<Rightarrow> None
                | Some (ac2, delays) \<Rightarrow> Some (ac2, delay # delays)))
      | (ac1, None) \<Rightarrow> loop ds 1 ac1)"

definition IsConnected :: "AutoClient \<Rightarrow> bool" where
  "IsConnected ac = (activeConn ac \<noteq> None)"

text \<open>
  The call primitives of the auto-client read the slot and delegate. The connection is
  held by pointer: what the call does to it shows in the slot.
\<close>

definition AutoClient_Call ::
  "RPCMessage list \<Rightarrow> bool \<Rightarrow> string \<Rightarrow> string \<Rightarrow> (string \<rightharpoonup> any) \<Rightarrow> Duration \<Rightarrow> AutoClient
     \<Rightarrow> (AutoClient \<times> (error + any)) option" where
  "AutoClient_Call arrivals timerFirst id' method ps timeout ac =
     (case activeConn ac of
        None \<Rightarrow> Some (ac, Inl NotConnected)
      | Some c \<Rightarrow>
          (case Call arrivals timerFirst id' method ps timeout c of
             None \<Rightarrow> None
           | Some (c1, r) \<Rightarrow> Some (ac\<lparr>activeConn := Some c1\<rparr>, r)))"

definition AutoClient_CallWithResult ::
  "libs \<Rightarrow> RPCMessage list \<Rightarrow> bool \<Rightarrow> string \<Rightarrow> string \<Rightarrow> (string \<rightharpoonup> any) \<Rightarrow> Duration \<Rightarrow> dest \<Rightarrow>
     AutoClient \<Rightarrow> (AutoClient \<times> (error + any)) option" where
  "AutoClient_CallWithResult lib arrivals timerFirst id' method ps timeout resultPtr ac =
     (case activeConn ac of
        None \<Rightarrow> Some (ac, Inl NotConnected)
      | Some c \<Rightarrow>
          (case CallWithResult lib arrivals timerFirst id' method ps timeout resultPtr c of
             None \<Rightarrow> None
           | Some (c1, r) \<Rightarrow> Some (ac\<lparr>activeConn := Some c1\<rparr>, r)))"

text \<open>
  \<^verbatim>\<open>CallAsync\<close> of the auto-client returns the not-connected error or nil; the second
  component of the result is that, the third what the callback is called with.
\<close>

definition AutoClient_CallAsync ::
  "RPCMessage list \<Rightarrow> select_case \<Rightarrow> RPCMessage list \<Rightarrow> string \<Rightarrow> string \<Rightarrow> (string \<rightharpoonup> any) \<Rightarrow>
     Duration \<Rightarrow> bool \<Rightarrow> AutoClient \<Rightarrow>
     (AutoClient \<times> error option \<times> (error + any) option) option" where
  "AutoClient_CallAsync arrivals sc late id' method ps timeout cb ac =
     (case activeConn ac of
        None \<Rightarrow> Some (ac, Some NotConnected, None)
      | Some c \<Rightarrow>
          (case CallAsync arrivals sc late id' method ps timeout cb c of
             None \<Rightarrow> None
           | Some (c1, cc, r) \<Rightarrow> Some (ac\<lparr>activeConn := Some c1\<rparr>, None, r)))"


text \<open>
  \<^verbatim>\<open>CallAsyncWithResult\<close> wraps the caller's callback (\<open>cb\<close>: it is not nil): an error
  is passed on, a result goes through the adapter, which runs only when there is a
  callback.
\<close>

definition CallAsyncWithResult ::
  "libs \<Rightarrow> RPCMessage list \<Rightarrow> select_case \<Rightarrow> RPCMessage list \<Rightarrow> string \<Rightarrow> string \<Rightarrow>
     (string \<rightharpoonup> any) \<Rightarrow> Duration \<Rightarrow> dest \<Rightarrow> bool \<Rightarrow> Connection \<Rightarrow>
     (Connection \<times> CallContext option \<times> (error + any) option) option" where
  "CallAsyncWithResult lib arrivals sc late id' method ps timeout resultPtr cb c =
     (case CallAsync arrivals sc late id' method ps timeout True c of
        None \<Rightarrow> None
      | Some (c1, cc, r) \<Rightarrow>
          Some (c1, cc,
                case r of
                  None \<Rightarrow> None
                | Some (Inl err) \<Rightarrow> if cb then Some (Inl err) else None
                | Some (Inr res) \<Rightarrow> if cb then Some (decodeInto lib resultPtr res) else None))"

definition AutoClient_CallAsyncWithResult ::
  "libs \<Rightarrow> RPCMessage list \<Rightarrow> select_case \<Rightarrow> RPCMessage list \<Rightarrow> string \<Rightarrow> string \<Rightarrow>
     (string \<rightharpoonup> any) \<Rightarrow> Duration \<Rightarrow> dest \<Rightarrow> bool \<Rightarrow> AutoClient \<Rightarrow>
     (AutoClient \<times> error option \<times> (error + any) option) option" where
  "AutoClient_CallAsyncWithResult lib arrivals sc late id' method ps timeout resultPtr cb ac =
     (case activeConn ac of
        None \<Rightarrow> Some (ac, Some NotConnected, None)
      | Some c \<Rightarrow>
          (case CallAsyncWithResult lib arrivals sc late id' method ps timeout resultPtr cb c of
             None \<Rightarrow> None
           | Some (c1, cc, r) \<Rightarrow> Some (ac\<lparr>activeConn := Some c1\<rparr>, None, r)))"


text \<open>
  What can happen to an auto-client: the operations of its interface, a connection
  attempt (made by \<^verbatim>\<open>Start\<close> and by every iteration of the reconnect loop), the
  read loop of the stored connection running to its end, and the transport of the
  stored connection ceasing to accept writes. \<^verbatim>\<open>IsConnected\<close> only reads.
\<close>

datatype ac_op =
    OpRegisterHandler string HandlerFunc
  | OpConnect dial
  | OpCall "RPCMessage list" bool string string "string \<rightharpoonup> any" Duration
  | OpCallWithResult libs "RPCMessage list" bool string string "string \<rightharpoonup> any" Duration dest
  | OpCallAsync "RPCMessage list" select_case "RPCMessage list" string string
      "string \<rightharpoonup> any" Duration bool
  | OpCallAsyncWithResult libs "RPCMessage list" select_case "RPCMessage list" string string
      "string \<rightharpoonup> any" Duration dest bool
  | OpReadLoopEnds bool "decoded list"
  | OpTransportBreaks

fun ac_step :: "ac_op \<Rightarrow> AutoClient \<Rightarrow> AutoClient option" where
  "ac_step (OpRegisterHandler method fn) ac = Some (RegisterHandler method fn ac)"
| "ac_step (OpConnect d) ac = Some (fst (connectOnce d ac))"
| "ac_step (OpCall arrivals timerFirst id' method ps timeout) ac =
     map_option fst (AutoClient_Call arrivals timerFirst id' method ps timeout ac)"
| "ac_step (OpCallWithResult lib arrivals timerFirst id' method ps timeout resultPtr) ac =
     map_option fst
       (AutoClient_CallWithResult lib arrivals timerFirst id' method ps timeout resultPtr ac)"
| "ac_step (OpCallAsync arrivals sc late id' method ps timeout cb) ac =
     map_option fst (AutoClient_CallAsync arrivals sc late id' method ps timeout cb ac)"
| "ac_step (OpCallAsyncWithResult lib arrivals sc late id' method ps timeout resultPtr cb) ac =
     map_option fst
       (AutoClient_CallAsyncWithResult lib arrivals sc late id' method ps timeout resultPtr cb ac)"
| "ac_step (OpReadLoopEnds gz ds) ac =
     (case activeConn ac of
        None \<Rightarrow> Some ac
      | Some c \<Rightarrow>
          (case readLoop gz ds c of
             None \<Rightarrow> None
           | Some c1 \<Rightarrow> Some (ac\<lparr>activeConn := Some c1\<rparr>)))"
| "ac_step OpTransportBreaks ac =
     (case activeConn ac of
        None \<Rightarrow> Some ac
      | Some c \<Rightarrow> Some (ac\<lparr>activeConn := Some (c\<lparr>connOK := False\<rparr>)\<rparr>))"

fun ac_run :: "ac_op list \<Rightarrow> AutoClient \<Rightarrow> AutoClient option" where
  "ac_run [] ac = Some ac"
| "ac_run (op # ops) ac =
     (case ac_step op ac of
        None \<Rightarrow> None
      | Some ac1 \<Rightarrow> ac_run ops ac1)"


section \<open>Example inputs\<close>

definition auth_a :: NegotiationMessage where
  "auth_a = \<lparr>NegType = AuthRequestType, ClientID = ''a'', AuthCode = ''s3cr3t'',
             UseCompression = False\<rparr>"

definition auth_ok :: NegotiationMessage where
  "auth_ok = \<lparr>NegType = AuthOKType, ClientID = [], AuthCode = [], UseCompression = False\<rparr>"

definition check_code :: "string \<Rightarrow> string \<Rightarrow> bool" where
  "check_code cid code = (code = ''s3cr3t'')"

definition server_a :: Server where
  "server_a = fst (ServeConn \<lparr>received = Some auth_a, sendOK = True\<rparr> 0 (NewServer check_code))"

definition client_a :: AutoClient where
  "client_a =
     fst (connectOnce \<lparr>dialOK = True, negSendOK = True, negReceived = Some auth_ok\<rparr>
            (NewAutoClient ''a'' ''s3cr3t'' False False))"

definition lib_id :: libs where
  "lib_id =
     \<lparr>NewDecoder = (\<lambda>cfg t. None),
      Decode = (\<lambda>cfg m t cur.
        if TagName cfg = ''json'' \<and> WeaklyTypedInput cfg then Inr (VStruct ''T'' m)
        else Inl DecodeFailed),
      Marshal = (\<lambda>v. case v of VFloat64 _ \<Rightarrow> Inr ''5'' | _ \<Rightarrow> Inl DecodeFailed),
      Unmarshal = (\<lambda>data t cur. if data = ''5'' \<and> t = TInt then Inr (VInt 5) else Inl DecodeFailed)\<rparr>"


section \<open>Theorems\<close>

subsection \<open>Backoff\<close>

lemma backoffDuration_upto_33:
  "\<forall>n \<in> set [1..<34]. map_option sint (backoffDuration (of_nat n)) = Some (backoff_spec n)"
  by code_simp

text \<open>
  C4. The claim is that for every attempt \<open>n \<ge> 1\<close> the delay is
  \<open>min (2 ^ (n - 1) * 2s) 3min\<close>, hence non-decreasing over consecutive failures.
  At attempt 34 the shift \<open>2s << 33\<close> leaves the 64-bit range: the code returns a
  negative delay (about \<open>-1.27 * 10 ^ 18\<close> ns) after having returned 3 minutes at
  attempt 33, where the claim gives 3 minutes again; from attempt 55 on the shifted
  value is 0 and the delay is 0.
\<close>

theorem backoffDuration_overflow:
  "map_option sint (backoffDuration 33) = Some 180000000000 \<and>
   map_option sint (backoffDuration 34) = Some (- 1266874889709551616) \<and>
   backoff_spec 34 = 180000000000 \<and>
   map_option sint (backoffDuration 55) = Some 0"
  by (simp add: backoffDuration_def backoff_spec_def Second_def Minute_def Let_def)

subsection \<open>Parameter accessors\<close>

lemma trunc_toward_zero:
  "\<bar>trunc v\<bar> = \<lfloor>\<bar>v\<bar>\<rfloor> \<and> (0 \<le> v \<longrightarrow> 0 \<le> trunc v) \<and> (v \<le> 0 \<longrightarrow> trunc v \<le> 0)"
  unfolding trunc_def by (auto simp: abs_if) linarith+

text \<open>
  C5, as stated, fails on both accessors. The accessor of \<^verbatim>\<open>context.go\<close> has a case
  for a Go \<^verbatim>\<open>int\<close>, a type other than string and float, and returns the value, not the
  default. The accessor of the context with the peer id has no string case: the string
  \<^verbatim>\<open>"42"\<close> yields the default.
\<close>

theorem GetParamInt_counterexample:
  "(\<forall>Atoi impl. GetParamInt Atoi impl
       \<lparr>ctx_clientID = [], ctx_id = ''1'', params = [''n'' \<mapsto> VInt 7]\<rparr> ''n'' 0 = 7) \<and>
   (\<forall>impl. GetParamInt_peer impl
       \<lparr>ctx_clientID = [], ctx_id = ''1'', params = [''n'' \<mapsto> VString ''42'']\<rparr> ''n'' 0 = 0)"
  by (simp add: GetParamInt_def GetParamInt_peer_def)

text \<open>
  C5, amended. The accessor of \<^verbatim>\<open>context.go\<close>: a string is parsed by
  \<^verbatim>\<open>strconv.Atoi\<close>, and yields the default when that fails; a float whose integer part
  fits the \<^verbatim>\<open>int\<close> type is truncated toward zero; a Go \<^verbatim>\<open>int\<close> is returned as it is;
  a missing parameter, nil, a boolean, a list, a map or a struct yields the default.
  The accessor of the context with the peer id truncates a float in the same way and
  yields the default in every other case, strings included.
\<close>

theorem GetParamInt_coercion:
  "(params ctx name = Some (VString s) \<longrightarrow>
      GetParamInt Atoi impl ctx name def = (case Atoi s of Some i \<Rightarrow> i | None \<Rightarrow> def)) \<and>
   (params ctx name = Some (VFloat64 v) \<and> - (2 ^ 63) \<le> trunc v \<and> trunc v < 2 ^ 63 \<longrightarrow>
      GetParamInt Atoi impl ctx name def = trunc v \<and>
      \<bar>trunc v\<bar> = \<lfloor>\<bar>v\<bar>\<rfloor> \<and> (0 \<le> v \<longrightarrow> 0 \<le> trunc v) \<and> (v \<le> 0 \<longrightarrow> trunc v \<le> 0)) \<and>
   (params ctx name = Some (VInt i) \<longrightarrow> GetParamInt Atoi impl ctx name def = i) \<and>
   (params ctx name = None \<or> params ctx name = Some VNil \<or> params ctx name = Some (VBool b) \<or>
    params ctx name = Some (VSlice xs) \<or> params ctx name = Some (VMap m) \<or>
    params ctx name = Some (VStruct tn fs) \<longrightarrow>
      GetParamInt Atoi impl ctx name def = def) \<and>
   (params ctx name = Some (VFloat64 v) \<and> - (2 ^ 63) \<le> trunc v \<and> trunc v < 2 ^ 63 \<longrightarrow>
      GetParamInt_peer impl ctx name def = trunc v) \<and>
   ((\<forall>f. params ctx name \<noteq> Some (VFloat64 f)) \<longrightarrow> GetParamInt_peer impl ctx name def = def)"
  using trunc_toward_zero [of v]
  by (auto simp: GetParamInt_def GetParamInt_peer_def int_of_float64_def
           split: option.splits any.splits)

theorem GetParamInt_coercion_witness:
  "GetParamInt (\<lambda>s. if s = ''42'' then Some 42 else None) (\<lambda>_. 0)
     \<lparr>ctx_clientID = [], ctx_id = ''1'', params = [''n'' \<mapsto> VString ''42'']\<rparr> ''n'' 5 = 42 \<and>
   GetParamInt (\<lambda>s. if s = ''42'' then Some 42 else None) (\<lambda>_. 0)
     \<lparr>ctx_clientID = [], ctx_id = ''1'', params = [''n'' \<mapsto> VString ''x'']\<rparr> ''n'' 5 = 5 \<and>
   GetParamInt (\<lambda>s. None) (\<lambda>_. 0)
     \<lparr>ctx_clientID = [], ctx_id = ''1'', params = [''n'' \<mapsto> VFloat64 (- 7 / 2)]\<rparr> ''n'' 5 = - 3 \<and>
   GetParamInt (\<lambda>s. None) (\<lambda>_. 0)
     \<lparr>ctx_clientID = [], ctx_id = ''1'', params = [''n'' \<mapsto> VInt 7]\<rparr> ''n'' 5 = 7 \<and>
   GetParamInt (\<lambda>s. None) (\<lambda>_. 0)
     \<lparr>ctx_clientID = [], ctx_id = ''1'', params = [''n'' \<mapsto> VBool True]\<rparr> ''n'' 5 = 5 \<and>
   GetParamInt_peer (\<lambda>_. 0)
     \<lparr>ctx_clientID = [], ctx_id = ''1'', params = [''n'' \<mapsto> VFloat64 (- 7 / 2)]\<rparr> ''n'' 5 = - 3 \<and>
   GetParamInt_peer (\<lambda>_. 0)
     \<lparr>ctx_clientID = [], ctx_id = ''1'', params = [''n'' \<mapsto> VString ''42'']\<rparr> ''n'' 5 = 5"
  using
    GetParamInt_coercion [of "\<lparr>ctx_clientID = [], ctx_id = ''1'', params = [''n'' \<mapsto> VString ''42'']\<rparr>"
      "''n''" "''42''" "\<lambda>s. if s = ''42'' then Some 42 else None" "\<lambda>_. 0" 5 0 0 True "[]" "[]"]
    GetParamInt_coercion [of "\<lparr>ctx_clientID = [], ctx_id = ''1'', params = [''n'' \<mapsto> VString ''x'']\<rparr>"
      "''n''" "''x''" "\<lambda>s. if s = ''42'' then Some 42 else None" "\<lambda>_. 0" 5 0 0 True "[]" "[]"]
    GetParamInt_coercion [of "\<lparr>ctx_clientID = [], ctx_id = ''1'', params = [''n'' \<mapsto> VFloat64 (- 7 / 2)]\<rparr>"
      "''n''" "[]" "\<lambda>s. None" "\<lambda>_. 0" 5 "- 7 / 2" 0 True "[]" "[]"]
    GetParamInt_coercion [of "\<lparr>ctx_clientID = [], ctx_id = ''1'', params = [''n'' \<mapsto> VInt 7]\<rparr>"
      "''n''" "[]" "\<lambda>s. None" "\<lambda>_. 0" 5 0 7 True "[]" "[]"]
    GetParamInt_coercion [of "\<lparr>ctx_clientID = [], ctx_id = ''1'', params = [''n'' \<mapsto> VBool True]\<rparr>"
      "''n''" "[]" "\<lambda>s. None" "\<lambda>_. 0" 5 0 0 True "[]" "[]"]
  by (simp add: trunc_def)

end
